theory Spec2Isabelle
  imports Main
begin

section \<open>The claim verification server (backend/server.js)\<close>

text \<open>
  The server has one endpoint, \<^verbatim>\<open>POST /api/verify\<close>. A request passes through three
  callbacks, each of which runs to completion on Node's single thread:
  \<^item> the multer middleware \<^verbatim>\<open>upload.single('claimImage')\<close>, which writes an uploaded
    file into the \<^verbatim>\<open>uploads\<close> directory;
  \<^item> the route handler, which validates the claim and spawns the Python agent;
  \<^item> the child's \<^verbatim>\<open>close\<close> listener, which removes the uploaded file and answers.
  Each callback is a function from the world before it to the world after it. Other
  requests may run their callbacks in between, so the theorems about a callback hold for
  every world it can start in.
\<close>

subsection \<open>Strings built by the runtime\<close>

text \<open>
  \<^verbatim>\<open>Date.now() + path.extname(file.originalname)\<close> adds a number to a string: the
  number is written in decimal. \<^verbatim>\<open>Date.now()\<close> is a count of milliseconds, a natural
  number here.
\<close>

definition digit_char :: "nat \<Rightarrow> char" where
  "digit_char d = ''0123456789'' ! d"

fun string_of_nat :: "nat \<Rightarrow> string" where
  "string_of_nat n =
     (if n < 10 then [digit_char n]
      else string_of_nat (n div 10) @ [digit_char (n mod 10)])"

declare string_of_nat.simps [simp del]

definition is_digit :: "char \<Rightarrow> bool" where
  "is_digit c = (c \<in> set ''0123456789'')"

text \<open>
  \<^verbatim>\<open>path.extname\<close> belongs to Node, not to this repository. It is modelled after its
  documentation for POSIX paths: the extension runs from the last dot of the last portion
  of the path to its end; it is empty when that portion has no dot, when its only dot is
  its first character, and for the portion \<^verbatim>\<open>..\<close>. Trailing separators are ignored.
\<close>

definition last_portion :: "string \<Rightarrow> string" where
  "last_portion p =
     rev (takeWhile (\<lambda>c. c \<noteq> CHR ''/'') (dropWhile (\<lambda>c. c = CHR ''/'') (rev p)))"

definition extname :: "string \<Rightarrow> string" where
  "extname p =
     (let b = last_portion p;
          ext = rev (takeWhile (\<lambda>c. c \<noteq> CHR ''.'') (rev b));
          stem = rev (drop 1 (dropWhile (\<lambda>c. c \<noteq> CHR ''.'') (rev b)))
      in if CHR ''.'' \<notin> set b \<or> stem = [] \<or> b = ''..'' then []
         else CHR ''.'' # ext)"

subsection \<open>Requests, responses and the world\<close>

text \<open>
  The multipart form as it arrives: the two text fields, each absent or a string, and the
  optional file part \<^verbatim>\<open>claimImage\<close>.
\<close>

record upload =
  originalname :: string
  bytes :: string

record form =
  claim_text :: "string option"
  source_text :: "string option"
  claimImage :: "upload option"

text \<open>
  The request the route handler sees: \<^verbatim>\<open>req.body.original_claim\<close>,
  \<^verbatim>\<open>req.body.source_identifier\<close> and \<^verbatim>\<open>req.file\<close>, which multer sets when it stored a
  file.
\<close>

record file_info =
  destination :: string
  filename :: string
  path :: string

record request =
  original_claim :: "string option"
  source_identifier :: "string option"
  req_file :: "file_info option"

text \<open>
  A response is a status and a JSON body: one of the handler's two error objects, or the
  value \<^verbatim>\<open>JSON.parse\<close> returned. The type of parsed values is a parameter.
\<close>

datatype 'j body =
  Error_only string
  | Error_details string string
  | Parsed 'j

record 'j response =
  status :: nat
  body :: "'j body"

record spawn_call =
  command :: string
  args :: "string list"
  env :: "(string \<times> string) list"

datatype log_entry =
  Received_request "string option" "string option" string
  | Starting_agent
  | Script_exited "int option"

text \<open>
  The world is the content of the \<^verbatim>\<open>uploads\<close> directory and the effects so far, oldest
  first.
\<close>

datatype 'j event =
  Wrote string
  | Logged log_entry
  | Spawned spawn_call
  | Unlinked string
  | Sent "'j response"

record 'j world =
  files :: "string \<rightharpoonup> string"
  events :: "'j event list"

text \<open>
  The errors of the runtime that the server's calls can end in, each with the path or
  the argument it is about: no file at the path, a file name longer than the file system
  takes, and a path or an argument with a NUL byte in it.
\<close>

datatype exn =
  ENOENT string
  | ENAMETOOLONG string
  | ERR_INVALID_ARG_VALUE string

text \<open>
  What a callback leaves behind: a response, a child process whose \<^verbatim>\<open>close\<close> is
  awaited, or an exception that no code of the server catches. After such an exception
  none of the handler's responses is written: an exception in the close listener is
  caught by nobody, one in the middleware or in the route handler is left to Express.
\<close>

datatype 'j outcome =
  Responded "'j response"
  | Awaiting_close
  | Uncaught exn

text \<open>
  What the handler takes from its runtime: \<^verbatim>\<open>JSON.parse\<close> (\<open>None\<close> when it throws),
  \<^verbatim>\<open>process.env\<close> and the value of \<^verbatim>\<open>path.join(__dirname, 'main.py')\<close>.
\<close>

record 'j runtime =
  JSON_parse :: "string \<Rightarrow> 'j option"
  process_env :: "(string \<times> string) list"
  main_py :: string

subsection \<open>Effects\<close>

definition console_log :: "log_entry \<Rightarrow> 'j world \<Rightarrow> 'j world" where
  "console_log e w = w\<lparr>events := events w @ [Logged e]\<rparr>"

definition has_nul :: "string \<Rightarrow> bool" where
  "has_nul s = (CHR 0x00 \<in> set s)"

text \<open>
  \<^verbatim>\<open>child_process.spawn\<close> checks the command and the arguments before it starts
  anything, and throws at the first one that holds a NUL byte.
\<close>

definition spawn ::
  "string \<Rightarrow> string list \<Rightarrow> (string \<times> string) list \<Rightarrow> 'j world \<Rightarrow> exn + 'j world" where
  "spawn c as e w =
     (case filter has_nul (c # as) of
        [] \<Rightarrow> Inr (w\<lparr>events := events w @ [Spawned \<lparr>command = c, args = as, env = e\<rparr>]\<rparr>)
      | bad # _ \<Rightarrow> Inl (ERR_INVALID_ARG_VALUE bad))"

text \<open>
  The write of the disk storage. It fails for a path with a NUL byte and for a file name
  of more than 255 bytes, and leaves no file then; other failures of the disk are not
  modelled. A file already at the path is overwritten.
\<close>

definition write_file :: "string \<Rightarrow> string \<Rightarrow> 'j world \<Rightarrow> exn + 'j world" where
  "write_file p d w =
     (if has_nul p then Inl (ERR_INVALID_ARG_VALUE p)
      else if 255 < length (last_portion p) then Inl (ENAMETOOLONG p)
      else Inr (w\<lparr>files := (files w)(p \<mapsto> d), events := events w @ [Wrote p]\<rparr>))"

text \<open>\<^verbatim>\<open>fs.unlinkSync\<close> throws when there is no file at the path.\<close>

definition unlinkSync :: "string \<Rightarrow> 'j world \<Rightarrow> exn + 'j world" where
  "unlinkSync p w =
     (case files w p of
        None \<Rightarrow> Inl (ENOENT p)
      | Some d \<Rightarrow> Inr (w\<lparr>files := (files w)(p := None), events := events w @ [Unlinked p]\<rparr>))"

definition res_json :: "'j response \<Rightarrow> 'j world \<Rightarrow> 'j world \<times> 'j outcome" where
  "res_json r w = (w\<lparr>events := events w @ [Sent r]\<rparr>, Responded r)"

subsection \<open>The multer middleware\<close>

text \<open>
  \<^verbatim>\<open>
  const uploadDir = 'uploads';
  const storage = multer.diskStorage({
      destination: (req, file, cb) => { cb(null, uploadDir); },
      filename: (req, file, cb) => {
          cb(null, Date.now() + path.extname(file.originalname));
      }
  });
  \<close>
  The disk storage writes the part to the destination joined with the file name and
  records the three of them in \<^verbatim>\<open>req.file\<close>. The first argument is what \<^verbatim>\<open>Date.now()\<close>
  returns when the file name is chosen. Multer passes over a file part whose file name
  is empty. When the write fails, multer hands the error on and the route handler does
  not run.
\<close>

definition uploadDir :: string where
  "uploadDir = ''uploads''"

definition storage_filename :: "nat \<Rightarrow> upload \<Rightarrow> string" where
  "storage_filename now f = string_of_nat now @ extname (originalname f)"

definition staged_path :: "nat \<Rightarrow> upload \<Rightarrow> string" where
  "staged_path now f = uploadDir @ ''/'' @ storage_filename now f"

definition upload_single :: "nat \<Rightarrow> form \<Rightarrow> 'j world \<Rightarrow> exn + 'j world \<times> request" where
  "upload_single now fm w =
     (case claimImage fm of
        None \<Rightarrow>
          Inr (w, \<lparr>original_claim = claim_text fm, source_identifier = source_text fm,
                   req_file = None\<rparr>)
      | Some f \<Rightarrow>
          if originalname f = [] then
            Inr (w, \<lparr>original_claim = claim_text fm, source_identifier = source_text fm,
                     req_file = None\<rparr>)
          else
            (case write_file (staged_path now f) (bytes f) w of
               Inl e \<Rightarrow> Inl e
             | Inr w' \<Rightarrow>
                 Inr (w',
                      \<lparr>original_claim = claim_text fm, source_identifier = source_text fm,
                       req_file =
                         Some \<lparr>destination = uploadDir, filename = storage_filename now f,
                               path = staged_path now f\<rparr>\<rparr>)))"

subsection \<open>The route handler\<close>

text \<open>
  A form field is falsy when it is absent or the empty string; every other string,
  blanks included, is truthy. \<^verbatim>\<open>source_identifier || 'N/A'\<close> is the field when it is
  truthy and the default otherwise.
\<close>

definition or_else :: "string option \<Rightarrow> string \<Rightarrow> string" where
  "or_else v d = (case v of None \<Rightarrow> d | Some s \<Rightarrow> if s = [] then d else s)"

definition imagePath :: "request \<Rightarrow> string" where
  "imagePath req = (case req_file req of Some f \<Rightarrow> path f | None \<Rightarrow> ''null'')"

text \<open>
  \<^verbatim>\<open>
  if (!original_claim) {
      return res.status(400).json({ error: 'Claim text is required.' });
  }
  console.log('Received request:', { original_claim, source_identifier, imagePath });
  console.log('Starting Python Planner-Executor agent...');
  const pythonProcess = spawn('python', [
      path.join(__dirname, 'main.py'), original_claim,
      source_identifier || 'N/A', imagePath
  ], { env: process.env });
  \<close>
  Nothing around the call of \<^verbatim>\<open>spawn\<close> catches what it throws.
\<close>

definition claim_required :: "'j response" where
  "claim_required = \<lparr>status = 400, body = Error_only ''Claim text is required.''\<rparr>"

definition api_verify :: "'j runtime \<Rightarrow> request \<Rightarrow> 'j world \<Rightarrow> 'j world \<times> 'j outcome" where
  "api_verify rt req w =
     (case original_claim req of
        None \<Rightarrow> res_json claim_required w
      | Some claim \<Rightarrow>
          if claim = [] then res_json claim_required w
          else
            (let w' =
               console_log Starting_agent
                 (console_log
                   (Received_request (original_claim req) (source_identifier req)
                     (imagePath req))
                   w)
             in case spawn ''python''
                  [main_py rt, claim, or_else (source_identifier req) ''N/A'', imagePath req]
                  (process_env rt) w' of
                  Inl e \<Rightarrow> (w', Uncaught e)
                | Inr w'' \<Rightarrow> (w'', Awaiting_close)))"

subsection \<open>The child's output and its close listener\<close>

text \<open>
  \<^verbatim>\<open>
  let resultData = '';
  pythonProcess.stdout.on('data', (data) => { resultData += data.toString(); });
  \<close>
  and the same for \<^verbatim>\<open>errorData\<close> and the standard error stream.
\<close>

definition accumulate :: "string list \<Rightarrow> string" where
  "accumulate chunks = foldl (\<lambda>acc d. acc @ d) [] chunks"

record child_run =
  stdout_chunks :: "string list"
  stderr_chunks :: "string list"
  exit_code :: "int option"

text \<open>
  \<^verbatim>\<open>
  pythonProcess.on('close', (code) => {
      console.log(`Python script exited with code ${code}`);
      if (req.file) { fs.unlinkSync(imagePath); }
      if (code === 0 && resultData) {
          try { res.json(JSON.parse(resultData)); }
          catch (e) {
              res.status(500).json({ error: 'Failed to parse agent result.', details: resultData });
          }
      } else {
          res.status(500).json({ error: 'Agent script failed.', details: errorData });
      }
  });
  \<close>
  The code is \<open>None\<close> when the child was ended by a signal. An exception of
  \<^verbatim>\<open>unlinkSync\<close> leaves the listener before any response is written.
\<close>

definition cleanup :: "request \<Rightarrow> 'j world \<Rightarrow> exn + 'j world" where
  "cleanup req w = (case req_file req of None \<Rightarrow> Inr w | Some f \<Rightarrow> unlinkSync (imagePath req) w)"

definition on_close ::
  "'j runtime \<Rightarrow> request \<Rightarrow> int option \<Rightarrow> string \<Rightarrow> string \<Rightarrow> 'j world \<Rightarrow> 'j world \<times> 'j outcome" where
  "on_close rt req code resultData errorData w =
     (case cleanup req (console_log (Script_exited code) w) of
        Inl e \<Rightarrow> (console_log (Script_exited code) w, Uncaught e)
      | Inr w' \<Rightarrow>
          if code = Some 0 \<and> resultData \<noteq> [] then
            (case JSON_parse rt resultData of
               Some v \<Rightarrow> res_json \<lparr>status = 200, body = Parsed v\<rparr> w'
             | None \<Rightarrow>
                 res_json
                   \<lparr>status = 500,
                    body = Error_details ''Failed to parse agent result.'' resultData\<rparr> w')
          else
            res_json \<lparr>status = 500, body = Error_details ''Agent script failed.'' errorData\<rparr> w')"

text \<open>
  One request served with nothing else running in between. The run of the child counts
  only when the handler got as far as spawning it.
\<close>

definition serve :: "'j runtime \<Rightarrow> nat \<Rightarrow> form \<Rightarrow> child_run \<Rightarrow> 'j world \<Rightarrow> 'j world \<times> 'j outcome" where
  "serve rt now fm run w =
     (case upload_single now fm w of
        Inl e \<Rightarrow> (w, Uncaught e)
      | Inr (w1, req) \<Rightarrow>
          (case api_verify rt req w1 of
             (w2, Awaiting_close) \<Rightarrow>
               on_close rt req (exit_code run) (accumulate (stdout_chunks run))
                 (accumulate (stderr_chunks run)) w2
           | (w2, out) \<Rightarrow> (w2, out)))"

text \<open>The request gets as far as a spawned agent: the upload is stored and \<^verbatim>\<open>spawn\<close> returns.\<close>

definition invoked :: "'j runtime \<Rightarrow> nat \<Rightarrow> form \<Rightarrow> 'j world \<Rightarrow> bool" where
  "invoked rt now fm w =
     (case upload_single now fm w of
        Inl e \<Rightarrow> False
      | Inr (w1, req) \<Rightarrow> snd (api_verify rt req w1) = Awaiting_close)"

subsection \<open>A parser to run the model with\<close>

text \<open>
  \<^verbatim>\<open>JSON.parse\<close> is the engine's. Every theorem below about the handler is proved for an
  arbitrary parser. To run the handler on a concrete output, this parser reads a fragment
  of JSON: the three literals, integers, strings without escapes, arrays and objects. It
  is used in the examples only.
\<close>

datatype json =
  JNull
  | JBool bool
  | JNumber int
  | JString string
  | JArray "json list"
  | JObject "(string \<times> json) list"

definition is_ws :: "char \<Rightarrow> bool" where
  "is_ws c = (c = CHR '' '' \<or> c = CHR 0x09 \<or> c = CHR 0x0A \<or> c = CHR 0x0D)"

definition skip_ws :: "string \<Rightarrow> string" where
  "skip_ws s = dropWhile is_ws s"

definition digit_value :: "char \<Rightarrow> nat" where
  "digit_value c = of_char c - 48"

definition nat_of_digits :: "string \<Rightarrow> nat" where
  "nat_of_digits ds = foldl (\<lambda>n c. 10 * n + digit_value c) 0 ds"

definition parse_digits :: "string \<Rightarrow> (nat \<times> string) option" where
  "parse_digits s =
     (let ds = takeWhile is_digit s in
      if ds = [] \<or> (hd ds = CHR ''0'' \<and> length ds > 1) then None
      else Some (nat_of_digits ds, dropWhile is_digit s))"

definition parse_number :: "string \<Rightarrow> (json \<times> string) option" where
  "parse_number s =
     (case s of
        [] \<Rightarrow> None
      | c # r \<Rightarrow>
          if c = CHR ''-'' then
            (case parse_digits r of None \<Rightarrow> None | Some (n, r') \<Rightarrow> Some (JNumber (- int n), r'))
          else
            (case parse_digits s of None \<Rightarrow> None | Some (n, r') \<Rightarrow> Some (JNumber (int n), r')))"

definition parse_chars :: "string \<Rightarrow> (string \<times> string) option" where
  "parse_chars s =
     (let cs = takeWhile (\<lambda>c. c \<noteq> CHR 0x22) s; r = dropWhile (\<lambda>c. c \<noteq> CHR 0x22) s in
      if r = [] \<or> CHR 0x5C \<in> set cs \<or> (\<exists>c \<in> set cs. of_char c < (32::nat)) then None
      else Some (cs, tl r))"

fun parse_value :: "nat \<Rightarrow> string \<Rightarrow> (json \<times> string) option"
  and parse_elements :: "nat \<Rightarrow> string \<Rightarrow> (json list \<times> string) option"
  and parse_members :: "nat \<Rightarrow> string \<Rightarrow> ((string \<times> json) list \<times> string) option"
where
  "parse_value 0 s = None"
| "parse_value (Suc n) s =
     (let t = skip_ws s in
      if take 4 t = ''null'' then Some (JNull, drop 4 t)
      else if take 4 t = ''true'' then Some (JBool True, drop 4 t)
      else if take 5 t = ''false'' then Some (JBool False, drop 5 t)
      else if take 1 t = [CHR 0x22] then
        (case parse_chars (drop 1 t) of None \<Rightarrow> None | Some (cs, r) \<Rightarrow> Some (JString cs, r))
      else if take 1 t = ''['' then
        (if take 1 (skip_ws (drop 1 t)) = '']'' then Some (JArray [], drop 1 (skip_ws (drop 1 t)))
         else (case parse_elements n (drop 1 t) of
                 None \<Rightarrow> None
               | Some (vs, r) \<Rightarrow> Some (JArray vs, r)))
      else if take 1 t = ''{'' then
        (if take 1 (skip_ws (drop 1 t)) = ''}'' then Some (JObject [], drop 1 (skip_ws (drop 1 t)))
         else (case parse_members n (drop 1 t) of
                 None \<Rightarrow> None
               | Some (ms, r) \<Rightarrow> Some (JObject ms, r)))
      else parse_number t)"
| "parse_elements 0 s = None"
| "parse_elements (Suc n) s =
     (case parse_value n s of
        None \<Rightarrow> None
      | Some (v, r) \<Rightarrow>
          (let t = skip_ws r in
           if take 1 t = '','' then
             (case parse_elements n (drop 1 t) of
                None \<Rightarrow> None
              | Some (vs, r') \<Rightarrow> Some (v # vs, r'))
           else if take 1 t = '']'' then Some ([v], drop 1 t)
           else None))"
| "parse_members 0 s = None"
| "parse_members (Suc n) s =
     (let t = skip_ws s in
      if take 1 t \<noteq> [CHR 0x22] then None
      else
        (case parse_chars (drop 1 t) of
           None \<Rightarrow> None
         | Some (k, r) \<Rightarrow>
             (let t1 = skip_ws r in
              if take 1 t1 \<noteq> '':'' then None
              else
                (case parse_value n (drop 1 t1) of
                   None \<Rightarrow> None
                 | Some (v, r1) \<Rightarrow>
                     (let t2 = skip_ws r1 in
                      if take 1 t2 = '','' then
                        (case parse_members n (drop 1 t2) of
                           None \<Rightarrow> None
                         | Some (ms, r2) \<Rightarrow> Some ((k, v) # ms, r2))
                      else if take 1 t2 = ''}'' then Some ([(k, v)], drop 1 t2)
                      else None)))))"

definition parse_json :: "string \<Rightarrow> json option" where
  "parse_json s =
     (case parse_value (Suc (length s)) s of
        None \<Rightarrow> None
      | Some (v, r) \<Rightarrow> if skip_ws r = [] then Some v else None)"

text \<open>A runtime and a world for the examples.\<close>

definition node :: "json runtime" where
  "node = \<lparr>JSON_parse = parse_json,
           process_env = [(''GOOGLE_API_KEY'', ''k1''), (''PORT'', ''5001'')],
           main_py = ''/srv/backend/main.py''\<rparr>"

definition empty_uploads :: "json world" where
  "empty_uploads = \<lparr>files = Map.empty, events = []\<rparr>"

subsection \<open>When the cleanup can run\<close>

text \<open>
  The close listener's \<^verbatim>\<open>unlinkSync\<close> goes through when the request stored no file, or
  when the file it stored is still at its path.
\<close>

definition removable :: "request \<Rightarrow> 'j world \<Rightarrow> bool" where
  "removable req w =
     (case req_file req of None \<Rightarrow> True | Some f \<Rightarrow> files w (path f) \<noteq> None)"

subsection \<open>Two uploads in one millisecond\<close>

text \<open>
  Two requests, each with a file called \<^verbatim>\<open>claim.png\<close>, whose file names are chosen in
  the same millisecond. Both files are stored, both agents are spawned, and the first
  agent finishes first. The requests and the world after the two uploads are written
  out; that the middleware produces them is lemma \<open>two_uploads_stored\<close>.
\<close>

definition form_a :: form where
  "form_a =
     \<lparr>claim_text = Some ''The sky is green'', source_text = None,
      claimImage = Some \<lparr>originalname = ''claim.png'', bytes = ''first image''\<rparr>\<rparr>"

definition form_b :: form where
  "form_b =
     \<lparr>claim_text = Some ''Water is wet'', source_text = Some ''https://example.org'',
      claimImage = Some \<lparr>originalname = ''claim.png'', bytes = ''second image''\<rparr>\<rparr>"

definition req_a :: request where
  "req_a =
     \<lparr>original_claim = Some ''The sky is green'', source_identifier = None,
      req_file = Some \<lparr>destination = ''uploads'', filename = ''1700000000000.png'',
                        path = ''uploads/1700000000000.png''\<rparr>\<rparr>"

definition req_b :: request where
  "req_b =
     \<lparr>original_claim = Some ''Water is wet'', source_identifier = Some ''https://example.org'',
      req_file = Some \<lparr>destination = ''uploads'', filename = ''1700000000000.png'',
                        path = ''uploads/1700000000000.png''\<rparr>\<rparr>"

definition a_stored :: "json world" where
  "a_stored =
     \<lparr>files = [''uploads/1700000000000.png'' \<mapsto> ''first image''],
      events = [Wrote ''uploads/1700000000000.png'']\<rparr>"

definition both_stored :: "json world" where
  "both_stored =
     \<lparr>files = [''uploads/1700000000000.png'' \<mapsto> ''second image''],
      events = [Wrote ''uploads/1700000000000.png'', Wrote ''uploads/1700000000000.png'']\<rparr>"

definition both_waiting :: "json world" where
  "both_waiting = fst (api_verify node req_b (fst (api_verify node req_a both_stored)))"

definition a_closed :: "json world" where
  "a_closed = fst (on_close node req_a (Some 0) ''{\"final_verdict\":\"False\"}'' [] both_waiting)"

text \<open>
  The same with one form sent twice: two requests that agree in every field, stored in
  the same millisecond.
\<close>

definition twins_stored :: "json world" where
  "twins_stored =
     \<lparr>files = [''uploads/1700000000000.png'' \<mapsto> ''first image''],
      events = [Wrote ''uploads/1700000000000.png'', Wrote ''uploads/1700000000000.png'']\<rparr>"

definition twins_waiting :: "json world" where
  "twins_waiting = fst (api_verify node req_a (fst (api_verify node req_a twins_stored)))"

section \<open>Lemmas\<close>

subsection \<open>Decimal numbers and file names\<close>

lemma below_ten: "(d::nat) < 10 \<Longrightarrow> d \<in> {0, 1, 2, 3, 4, 5, 6, 7, 8, 9}"
  by auto

lemma digit_char_is_digit: "d < 10 \<Longrightarrow> is_digit (digit_char d)"
  by (drule below_ten) (auto simp: is_digit_def digit_char_def)

lemma digit_char_inj: "a < 10 \<Longrightarrow> b < 10 \<Longrightarrow> digit_char a = digit_char b \<Longrightarrow> a = b"
  by (drule below_ten, drule below_ten) (auto simp: digit_char_def)

lemma string_of_nat_nonempty: "string_of_nat n \<noteq> []"
  by (subst string_of_nat.simps) simp

lemma string_of_nat_digits: "c \<in> set (string_of_nat n) \<Longrightarrow> is_digit c"
proof (induction n rule: string_of_nat.induct)
  case (1 n)
  show ?case
  proof (cases "n < 10")
    case True
    with "1.prems" show ?thesis
      by (subst (asm) string_of_nat.simps) (simp add: digit_char_is_digit)
  next
    case False
    with "1.prems" have "c \<in> set (string_of_nat (n div 10)) \<or> c = digit_char (n mod 10)"
      by (subst (asm) string_of_nat.simps) auto
    with False "1.IH" show ?thesis
      by (auto simp: digit_char_is_digit)
  qed
qed

lemma string_of_nat_inj: "string_of_nat a = string_of_nat b \<Longrightarrow> a = b"
proof (induction a arbitrary: b rule: string_of_nat.induct)
  case (1 a)
  show ?case
  proof (cases "a < 10")
    case small_a: True
    show ?thesis
    proof (cases "b < 10")
      case True
      with small_a "1.prems" show ?thesis
        by (simp add: string_of_nat.simps [of a] string_of_nat.simps [of b] digit_char_inj)
    next
      case False
      with small_a "1.prems" show ?thesis
        using string_of_nat_nonempty [of "b div 10"]
        by (simp add: string_of_nat.simps [of a] string_of_nat.simps [of b])
    qed
  next
    case big_a: False
    show ?thesis
    proof (cases "b < 10")
      case True
      with big_a "1.prems" show ?thesis
        using string_of_nat_nonempty [of "a div 10"]
        by (simp add: string_of_nat.simps [of a] string_of_nat.simps [of b])
    next
      case False
      with big_a "1.prems" have
        "string_of_nat (a div 10) = string_of_nat (b div 10)"
        "digit_char (a mod 10) = digit_char (b mod 10)"
        by (simp_all add: string_of_nat.simps [of a] string_of_nat.simps [of b])
      with big_a "1.IH" have "a div 10 = b div 10" "a mod 10 = b mod 10"
        by (auto intro: digit_char_inj)
      then show ?thesis
        by (metis div_mult_mod_eq)
    qed
  qed
qed

lemma dot_not_digit: "\<not> is_digit (CHR ''.'')"
  by (simp add: is_digit_def)

lemma extname_shape: "extname p = [] \<or> (\<exists>e. extname p = CHR ''.'' # e)"
  by (simp add: extname_def Let_def)

lemma digits_of_filename: "takeWhile is_digit (storage_filename now f) = string_of_nat now"
proof -
  have "takeWhile is_digit (extname (originalname f)) = []"
    using extname_shape [of "originalname f"] by (auto simp: dot_not_digit)
  then show ?thesis
    by (simp add: storage_filename_def takeWhile_append2 string_of_nat_digits)
qed

lemma storage_filename_eq_iff:
  "storage_filename t1 f1 = storage_filename t2 f2 \<longleftrightarrow>
     t1 = t2 \<and> extname (originalname f1) = extname (originalname f2)"
proof
  assume eq: "storage_filename t1 f1 = storage_filename t2 f2"
  then have "string_of_nat t1 = string_of_nat t2"
    using digits_of_filename [of t1 f1] digits_of_filename [of t2 f2] by simp
  then have "t1 = t2" by (rule string_of_nat_inj)
  with eq show "t1 = t2 \<and> extname (originalname f1) = extname (originalname f2)"
    by (simp add: storage_filename_def)
next
  assume "t1 = t2 \<and> extname (originalname f1) = extname (originalname f2)"
  then show "storage_filename t1 f1 = storage_filename t2 f2"
    by (simp add: storage_filename_def)
qed

subsection \<open>The close listener\<close>

lemma cleanup_after_log:
  "cleanup req (console_log e w) =
     (case req_file req of
        None \<Rightarrow> Inr (console_log e w)
      | Some f \<Rightarrow>
          (case files w (path f) of
             None \<Rightarrow> Inl (ENOENT (path f))
           | Some d \<Rightarrow>
               Inr (w\<lparr>files := (files w)(path f := None),
                       events := events w @ [Logged e, Unlinked (path f)]\<rparr>)))"
  by (simp add: cleanup_def console_log_def unlinkSync_def imagePath_def split: option.splits)

lemma on_close_sends:
  assumes "removable req w"
  shows "snd (on_close rt req code out err w) =
     Responded
       (if code = Some 0 \<and> out \<noteq> [] then
          (case JSON_parse rt out of
             Some v \<Rightarrow> \<lparr>status = 200, body = Parsed v\<rparr>
           | None \<Rightarrow>
               \<lparr>status = 500, body = Error_details ''Failed to parse agent result.'' out\<rparr>)
        else \<lparr>status = 500, body = Error_details ''Agent script failed.'' err\<rparr>)"
  using assms
  by (auto simp: on_close_def cleanup_after_log removable_def res_json_def split: option.splits)

lemma on_close_throws:
  assumes "\<not> removable req w"
  shows "on_close rt req code out err w =
     (w\<lparr>events := events w @ [Logged (Script_exited code)]\<rparr>, Uncaught (ENOENT (imagePath req)))"
  using assms
  by (auto simp: on_close_def cleanup_def unlinkSync_def removable_def imagePath_def
      console_log_def split: option.splits)

lemma on_close_events:
  assumes "removable req w"
  shows "\<exists>r. snd (on_close rt req code out err w) = Responded r \<and>
     events (fst (on_close rt req code out err w)) =
       events w @ [Logged (Script_exited code)] @
       (case req_file req of None \<Rightarrow> [] | Some f \<Rightarrow> [Unlinked (path f)]) @ [Sent r]"
  using assms
  by (auto simp: on_close_def cleanup_def unlinkSync_def removable_def imagePath_def
      res_json_def console_log_def split: option.splits)

lemma on_close_files:
  "files (fst (on_close rt req code out err w)) =
     (case req_file req of None \<Rightarrow> files w | Some f \<Rightarrow> (files w)(path f := None))"
  by (auto simp: on_close_def cleanup_def unlinkSync_def imagePath_def res_json_def
      console_log_def split: option.splits)

lemma on_close_response:
  assumes "snd (on_close rt req code out err w) = Responded r"
  shows "removable req w" and "r =
     (if code = Some 0 \<and> out \<noteq> [] then
        (case JSON_parse rt out of
           Some v \<Rightarrow> \<lparr>status = 200, body = Parsed v\<rparr>
         | None \<Rightarrow>
             \<lparr>status = 500, body = Error_details ''Failed to parse agent result.'' out\<rparr>)
      else \<lparr>status = 500, body = Error_details ''Agent script failed.'' err\<rparr>)"
proof -
  show gone: "removable req w"
  proof (rule ccontr)
    assume "\<not> removable req w"
    from on_close_throws [OF this, of rt code out err] assms show False
      by simp
  qed
  from on_close_sends [OF gone, of rt code out err] assms
  show "r =
     (if code = Some 0 \<and> out \<noteq> [] then
        (case JSON_parse rt out of
           Some v \<Rightarrow> \<lparr>status = 200, body = Parsed v\<rparr>
         | None \<Rightarrow>
             \<lparr>status = 500, body = Error_details ''Failed to parse agent result.'' out\<rparr>)
      else \<lparr>status = 500, body = Error_details ''Agent script failed.'' err\<rparr>)"
    by simp
qed

subsection \<open>The route handler\<close>


lemma api_verify_files: "files (fst (api_verify rt req w)) = files w"
  by (simp add: api_verify_def res_json_def spawn_def console_log_def Let_def
      split: option.splits list.splits)



subsection \<open>A request served alone\<close>

lemma removable_after_upload:
  assumes "upload_single now fm w = Inr (w1, req)"
  shows "removable req (fst (api_verify rt req w1))"
  using assms
  by (auto simp: removable_def api_verify_files upload_single_def write_file_def
      split: option.splits if_splits sum.splits)

lemma invoked_cases:
  assumes "invoked rt now fm w"
  obtains w1 req w2 where "upload_single now fm w = Inr (w1, req)"
    and "api_verify rt req w1 = (w2, Awaiting_close)"
proof -
  from assms obtain w1 req where up: "upload_single now fm w = Inr (w1, req)"
    and "snd (api_verify rt req w1) = Awaiting_close"
    by (auto simp: invoked_def split: sum.splits)
  then obtain w2 where "api_verify rt req w1 = (w2, Awaiting_close)"
    by (cases "api_verify rt req w1") auto
  with up that show thesis
    by blast
qed

lemma invoked_without_upload:
  assumes "claim_text fm = Some c" and "c \<noteq> []" and "claimImage fm = None"
    and "\<not> has_nul (main_py rt)" and "\<not> has_nul c"
    and "\<not> has_nul (or_else (source_text fm) ''N/A'')"
  shows "invoked rt now fm w"
  using assms
  by (simp add: invoked_def upload_single_def api_verify_def spawn_def console_log_def
      imagePath_def has_nul_def)

lemma invoked_claim:
  assumes "invoked rt now fm w"
  shows "\<exists>c. claim_text fm = Some c \<and> c \<noteq> []"
proof -
  from assms obtain w1 req w2 where up: "upload_single now fm w = Inr (w1, req)"
    and ap: "api_verify rt req w1 = (w2, Awaiting_close)"
    by (rule invoked_cases)
  from up have "original_claim req = claim_text fm"
    by (auto simp: upload_single_def split: option.splits if_splits sum.splits)
  with ap show ?thesis
    by (auto simp: api_verify_def res_json_def split: option.splits if_splits)
qed

lemma serve_invoked:
  assumes "invoked rt now fm w"
  shows "\<exists>req w2. removable req w2 \<and>
     serve rt now fm run w =
       on_close rt req (exit_code run) (accumulate (stdout_chunks run))
         (accumulate (stderr_chunks run)) w2"
proof -
  from assms obtain w1 req w2 where up: "upload_single now fm w = Inr (w1, req)"
    and ap: "api_verify rt req w1 = (w2, Awaiting_close)"
    by (rule invoked_cases)
  from removable_after_upload [OF up, of rt] ap have "removable req w2"
    by simp
  moreover from up ap have "serve rt now fm run w =
      on_close rt req (exit_code run) (accumulate (stdout_chunks run))
        (accumulate (stderr_chunks run)) w2"
    by (simp add: serve_def)
  ultimately show ?thesis
    by blast
qed

lemma serve_sends:
  assumes "invoked rt now fm w"
  shows "snd (serve rt now fm run w) =
     Responded
       (if exit_code run = Some 0 \<and> accumulate (stdout_chunks run) \<noteq> [] then
          (case JSON_parse rt (accumulate (stdout_chunks run)) of
             Some v \<Rightarrow> \<lparr>status = 200, body = Parsed v\<rparr>
           | None \<Rightarrow>
               \<lparr>status = 500,
                body = Error_details ''Failed to parse agent result.''
                  (accumulate (stdout_chunks run))\<rparr>)
        else
          \<lparr>status = 500,
           body = Error_details ''Agent script failed.'' (accumulate (stderr_chunks run))\<rparr>)"
proof -
  from serve_invoked [OF assms, of run] obtain req w2 where "removable req w2"
    and "serve rt now fm run w =
      on_close rt req (exit_code run) (accumulate (stdout_chunks run))
        (accumulate (stderr_chunks run)) w2"
    by blast
  then show ?thesis
    by (simp only: on_close_sends)
qed

lemma serve_rejects:
  assumes "claim_text fm = None \<or> claim_text fm = Some []"
  shows "serve rt now fm run w =
     (case upload_single now fm w of
        Inl e \<Rightarrow> (w, Uncaught e)
      | Inr (w1, req) \<Rightarrow> res_json claim_required w1)"
  using assms
  by (auto simp: serve_def upload_single_def api_verify_def res_json_def
      split: option.splits sum.splits if_splits)

lemma serve_response:
  assumes "snd (serve rt now fm run w) = Responded r"
  shows "r =
     (if claim_text fm = None \<or> claim_text fm = Some [] then
        \<lparr>status = 400, body = Error_only ''Claim text is required.''\<rparr>
      else if exit_code run = Some 0 \<and> accumulate (stdout_chunks run) \<noteq> [] then
        (case JSON_parse rt (accumulate (stdout_chunks run)) of
           Some v \<Rightarrow> \<lparr>status = 200, body = Parsed v\<rparr>
         | None \<Rightarrow>
             \<lparr>status = 500,
              body = Error_details ''Failed to parse agent result.''
                (accumulate (stdout_chunks run))\<rparr>)
      else
        \<lparr>status = 500,
         body = Error_details ''Agent script failed.'' (accumulate (stderr_chunks run))\<rparr>)"
proof (cases "claim_text fm = None \<or> claim_text fm = Some []")
  case True
  with assms serve_rejects [OF True, of rt now run w] show ?thesis
    by (auto simp: res_json_def claim_required_def split: sum.splits)
next
  case False
  have "invoked rt now fm w"
  proof (rule ccontr)
    assume not: "\<not> invoked rt now fm w"
    show False
    proof (cases "upload_single now fm w")
      case (Inl e)
      with assms show False
        by (simp add: serve_def)
    next
      case (Inr p)
      obtain w1 req where p: "p = (w1, req)"
        by (cases p)
      from Inr p have claim: "original_claim req = claim_text fm"
        by (auto simp: upload_single_def split: option.splits if_splits sum.splits)
      from not Inr p have "snd (api_verify rt req w1) \<noteq> Awaiting_close"
        by (simp add: invoked_def)
      moreover from False claim have "\<forall>r. snd (api_verify rt req w1) \<noteq> Responded r"
        by (auto simp: api_verify_def Let_def split: option.splits sum.splits)
      ultimately obtain w2 e where "api_verify rt req w1 = (w2, Uncaught e)"
        by (cases "api_verify rt req w1"; cases "snd (api_verify rt req w1)") auto
      with Inr p have "snd (serve rt now fm run w) = Uncaught e"
        by (simp add: serve_def)
      with assms show False
        by simp
    qed
  qed
  from serve_sends [OF this, of run] assms have sent: "r =
     (if exit_code run = Some 0 \<and> accumulate (stdout_chunks run) \<noteq> [] then
        (case JSON_parse rt (accumulate (stdout_chunks run)) of
           Some v \<Rightarrow> \<lparr>status = 200, body = Parsed v\<rparr>
         | None \<Rightarrow>
             \<lparr>status = 500,
              body = Error_details ''Failed to parse agent result.''
                (accumulate (stdout_chunks run))\<rparr>)
      else
        \<lparr>status = 500,
         body = Error_details ''Agent script failed.'' (accumulate (stderr_chunks run))\<rparr>)"
    by simp
  show ?thesis
    unfolding if_not_P [OF False] by (rule sent)
qed

lemma accumulate_concat: "accumulate chunks = concat chunks"
proof -
  have "foldl (\<lambda>acc d. acc @ d) a chunks = a @ concat chunks" for a
    by (induction chunks arbitrary: a) simp_all
  then show ?thesis
    by (simp add: accumulate_def)
qed

subsection \<open>The examples, evaluated\<close>

lemma now_string: "string_of_nat 1700000000000 = ''1700000000000''"
  by (simp add: string_of_nat.simps digit_char_def)

lemma png_ext: "extname ''claim.png'' = ''.png''"
  by (simp add: extname_def last_portion_def)

lemma staged_png:
  "staged_path 1700000000000 \<lparr>originalname = ''claim.png'', bytes = b\<rparr> =
     ''uploads/1700000000000.png''"
  by (simp add: staged_path_def storage_filename_def uploadDir_def now_string png_ext)

lemma named_png:
  "storage_filename 1700000000000 \<lparr>originalname = ''claim.png'', bytes = b\<rparr> =
     ''1700000000000.png''"
  by (simp add: storage_filename_def now_string png_ext)

lemma req_a_eq:
  "req_a =
     \<lparr>original_claim = Some ''The sky is green'', source_identifier = None,
      req_file = Some \<lparr>destination = ''uploads'', filename = ''1700000000000.png'',
                        path = ''uploads/1700000000000.png''\<rparr>\<rparr>"
  by (simp add: req_a_def)

lemma req_b_eq:
  "req_b =
     \<lparr>original_claim = Some ''Water is wet'', source_identifier = Some ''https://example.org'',
      req_file = Some \<lparr>destination = ''uploads'', filename = ''1700000000000.png'',
                        path = ''uploads/1700000000000.png''\<rparr>\<rparr>"
  by (simp add: req_b_def)

lemma both_stored_eq:
  "both_stored =
     \<lparr>files = [''uploads/1700000000000.png'' \<mapsto> ''second image''],
      events = [Wrote ''uploads/1700000000000.png'', Wrote ''uploads/1700000000000.png'']\<rparr>"
  by (simp add: both_stored_def)

lemma png_path_storable:
  "\<not> has_nul ''uploads/1700000000000.png''"
  "\<not> 255 < length (last_portion ''uploads/1700000000000.png'')"
  by (simp_all add: has_nul_def last_portion_def)

lemma two_uploads_stored:
  "upload_single 1700000000000 form_a empty_uploads = Inr (a_stored, req_a)"
  "upload_single 1700000000000 form_b a_stored = Inr (both_stored, req_b)"
  "upload_single 1700000000000 form_a a_stored = Inr (twins_stored, req_a)"
  by (simp_all add: upload_single_def form_a_def form_b_def staged_png named_png uploadDir_def
      write_file_def png_path_storable empty_uploads_def a_stored_def both_stored_def
      twins_stored_def req_a_def req_b_def)

lemma both_waiting_eq:
  "both_waiting =
     \<lparr>files = [''uploads/1700000000000.png'' \<mapsto> ''second image''],
      events =
        [Wrote ''uploads/1700000000000.png'', Wrote ''uploads/1700000000000.png'',
         Logged (Received_request (Some ''The sky is green'') None ''uploads/1700000000000.png''),
         Logged Starting_agent,
         Spawned
           \<lparr>command = ''python'',
            args = [''/srv/backend/main.py'', ''The sky is green'', ''N/A'',
                    ''uploads/1700000000000.png''],
            env = [(''GOOGLE_API_KEY'', ''k1''), (''PORT'', ''5001'')]\<rparr>,
         Logged (Received_request (Some ''Water is wet'') (Some ''https://example.org'')
           ''uploads/1700000000000.png''),
         Logged Starting_agent,
         Spawned
           \<lparr>command = ''python'',
            args = [''/srv/backend/main.py'', ''Water is wet'', ''https://example.org'',
                    ''uploads/1700000000000.png''],
            env = [(''GOOGLE_API_KEY'', ''k1''), (''PORT'', ''5001'')]\<rparr>]\<rparr>"
  by (simp add: both_waiting_def both_stored_eq req_a_eq req_b_eq api_verify_def spawn_def
      console_log_def node_def or_else_def imagePath_def has_nul_def)

lemma parsed_verdict:
  "parse_json ''{\"final_verdict\":\"False\"}'' =
     Some (JObject [(''final_verdict'', JString ''False'')])"
  by code_simp



lemma not_json: "parse_json ''not json'' = None"
  by code_simp

lemma a_closed_eq:
  "a_closed =
     \<lparr>files = Map.empty,
      events =
        events both_waiting @
        [Logged (Script_exited (Some 0)), Unlinked ''uploads/1700000000000.png'',
         Sent \<lparr>status = 200,
               body = Parsed (JObject [(''final_verdict'', JString ''False'')])\<rparr>]\<rparr>"
  by (simp add: a_closed_def both_waiting_eq req_a_eq on_close_def cleanup_def unlinkSync_def
      imagePath_def console_log_def res_json_def node_def parsed_verdict)

lemma removable_b_waiting: "removable req_b both_waiting"
  by (simp add: removable_def req_b_eq both_waiting_eq)

lemma twins_waiting_eq:
  "twins_waiting =
     \<lparr>files = [''uploads/1700000000000.png'' \<mapsto> ''first image''],
      events =
        [Wrote ''uploads/1700000000000.png'', Wrote ''uploads/1700000000000.png'',
         Logged (Received_request (Some ''The sky is green'') None ''uploads/1700000000000.png''),
         Logged Starting_agent,
         Spawned
           \<lparr>command = ''python'',
            args = [''/srv/backend/main.py'', ''The sky is green'', ''N/A'',
                    ''uploads/1700000000000.png''],
            env = [(''GOOGLE_API_KEY'', ''k1''), (''PORT'', ''5001'')]\<rparr>,
         Logged (Received_request (Some ''The sky is green'') None ''uploads/1700000000000.png''),
         Logged Starting_agent,
         Spawned
           \<lparr>command = ''python'',
            args = [''/srv/backend/main.py'', ''The sky is green'', ''N/A'',
                    ''uploads/1700000000000.png''],
            env = [(''GOOGLE_API_KEY'', ''k1''), (''PORT'', ''5001'')]\<rparr>]\<rparr>"
  by (simp add: twins_waiting_def twins_stored_def req_a_eq api_verify_def spawn_def
      console_log_def node_def or_else_def imagePath_def has_nul_def)

lemma invoked_with_file: "invoked node 1700000000000 form_a empty_uploads"
  by (simp add: invoked_def two_uploads_stored req_a_eq api_verify_def spawn_def
      console_log_def node_def or_else_def imagePath_def has_nul_def)

section \<open>The claims\<close>

text \<open>
  C1, as amended. A request whose \<^verbatim>\<open>original_claim\<close> is absent or the empty string is
  answered by the handler with status 400 and the body
  \<^verbatim>\<open>{error: 'Claim text is required.'}\<close>; the handler does nothing else: it spawns no
  process and writes no file. When such a request has no file part, the whole request
  leaves the uploads directory as it was.
\<close>

theorem empty_claim_rejected:
  "(original_claim req = None \<or> original_claim req = Some [] \<longrightarrow>
      api_verify rt req w =
        (w\<lparr>events := events w @
             [Sent \<lparr>status = 400, body = Error_only ''Claim text is required.''\<rparr>]\<rparr>,
         Responded \<lparr>status = 400, body = Error_only ''Claim text is required.''\<rparr>))
   \<and> ((claim_text fm = None \<or> claim_text fm = Some []) \<and> claimImage fm = None \<longrightarrow>
      serve rt now fm run w =
        (w\<lparr>events := events w @
             [Sent \<lparr>status = 400, body = Error_only ''Claim text is required.''\<rparr>]\<rparr>,
         Responded \<lparr>status = 400, body = Error_only ''Claim text is required.''\<rparr>))"
proof (intro conjI impI)
  assume "original_claim req = None \<or> original_claim req = Some []"
  then show "api_verify rt req w =
        (w\<lparr>events := events w @
             [Sent \<lparr>status = 400, body = Error_only ''Claim text is required.''\<rparr>]\<rparr>,
         Responded \<lparr>status = 400, body = Error_only ''Claim text is required.''\<rparr>)"
    by (auto simp: api_verify_def res_json_def claim_required_def)
next
  assume a: "(claim_text fm = None \<or> claim_text fm = Some []) \<and> claimImage fm = None"
  then have "serve rt now fm run w =
      (case upload_single now fm w of
         Inl e \<Rightarrow> (w, Uncaught e)
       | Inr (w1, req) \<Rightarrow> res_json claim_required w1)"
    using serve_rejects [of fm rt now run w] by blast
  with a show "serve rt now fm run w =
        (w\<lparr>events := events w @
             [Sent \<lparr>status = 400, body = Error_only ''Claim text is required.''\<rparr>]\<rparr>,
         Responded \<lparr>status = 400, body = Error_only ''Claim text is required.''\<rparr>)"
    by (simp add: upload_single_def res_json_def claim_required_def)
qed

theorem empty_claim_rejected_witness:
  "api_verify node \<lparr>original_claim = Some [], source_identifier = None, req_file = None\<rparr>
     empty_uploads =
     (empty_uploads\<lparr>events := events empty_uploads @
         [Sent \<lparr>status = 400, body = Error_only ''Claim text is required.''\<rparr>]\<rparr>,
      Responded \<lparr>status = 400, body = Error_only ''Claim text is required.''\<rparr>)
   \<and> serve node 1700000000000
       \<lparr>claim_text = None, source_text = Some ''https://example.org'', claimImage = None\<rparr>
       \<lparr>stdout_chunks = [], stderr_chunks = [], exit_code = Some 0\<rparr> empty_uploads =
     (empty_uploads\<lparr>events := events empty_uploads @
         [Sent \<lparr>status = 400, body = Error_only ''Claim text is required.''\<rparr>]\<rparr>,
      Responded \<lparr>status = 400, body = Error_only ''Claim text is required.''\<rparr>)"
  using empty_claim_rejected
    [of "\<lparr>original_claim = Some [], source_identifier = None, req_file = None\<rparr>"
        node empty_uploads
        "\<lparr>claim_text = None, source_text = Some ''https://example.org'', claimImage = None\<rparr>"
        1700000000000 "\<lparr>stdout_chunks = [], stderr_chunks = [], exit_code = Some 0\<rparr>"]
  by simp

text \<open>
  C1 as stated fails for a claim of blanks: three spaces are a non-empty string, the
  agent is spawned with them and its verdict is returned with status 200.
\<close>

theorem blank_claim_is_spawned:
  "serve node 1700000000000
     \<lparr>claim_text = Some ''   '', source_text = None, claimImage = None\<rparr>
     \<lparr>stdout_chunks = [''{\"final_verdict\":\"False\"}''], stderr_chunks = [],
      exit_code = Some 0\<rparr>
     empty_uploads =
   (\<lparr>files = Map.empty,
     events =
       [Logged (Received_request (Some ''   '') None ''null''),
        Logged Starting_agent,
        Spawned
          \<lparr>command = ''python'',
           args = [''/srv/backend/main.py'', ''   '', ''N/A'', ''null''],
           env = [(''GOOGLE_API_KEY'', ''k1''), (''PORT'', ''5001'')]\<rparr>,
        Logged (Script_exited (Some 0)),
        Sent \<lparr>status = 200,
              body = Parsed (JObject [(''final_verdict'', JString ''False'')])\<rparr>]\<rparr>,
    Responded
      \<lparr>status = 200, body = Parsed (JObject [(''final_verdict'', JString ''False'')])\<rparr>)"
  by (simp add: serve_def upload_single_def api_verify_def on_close_def cleanup_def
      console_log_def spawn_def has_nul_def res_json_def imagePath_def or_else_def
      accumulate_def node_def empty_uploads_def parsed_verdict)

text \<open>
  C2. The removal of the stored file stands only in the close listener. There it comes
  before every response. A request that is refused never reaches the listener: a file
  part that comes with an empty claim is stored by the middleware, the handler answers
  400 and returns, and the file stays. The same holds when \<^verbatim>\<open>spawn\<close> throws: the file is
  stored and no listener is left to remove it. With a claim that is spawned, the file of
  the same form is gone when the response is sent.
\<close>

theorem refused_upload_is_left_behind:
  "serve node 1700000000000
     \<lparr>claim_text = Some [], source_text = None,
      claimImage = Some \<lparr>originalname = ''claim.png'', bytes = ''first image''\<rparr>\<rparr>
     \<lparr>stdout_chunks = [], stderr_chunks = [], exit_code = None\<rparr>
     empty_uploads =
   (\<lparr>files = [''uploads/1700000000000.png'' \<mapsto> ''first image''],
     events =
       [Wrote ''uploads/1700000000000.png'',
        Sent \<lparr>status = 400, body = Error_only ''Claim text is required.''\<rparr>]\<rparr>,
    Responded \<lparr>status = 400, body = Error_only ''Claim text is required.''\<rparr>)
   \<and> serve node 1700000000000
       \<lparr>claim_text = Some [CHR ''a'', CHR 0x00, CHR ''b''], source_text = None,
        claimImage = Some \<lparr>originalname = ''claim.png'', bytes = ''first image''\<rparr>\<rparr>
       \<lparr>stdout_chunks = [], stderr_chunks = [], exit_code = None\<rparr>
       empty_uploads =
     (\<lparr>files = [''uploads/1700000000000.png'' \<mapsto> ''first image''],
       events =
         [Wrote ''uploads/1700000000000.png'',
          Logged (Received_request (Some [CHR ''a'', CHR 0x00, CHR ''b'']) None
            ''uploads/1700000000000.png''),
          Logged Starting_agent]\<rparr>,
      Uncaught (ERR_INVALID_ARG_VALUE [CHR ''a'', CHR 0x00, CHR ''b'']))
   \<and> files
       (fst (serve node 1700000000000 form_a
          \<lparr>stdout_chunks = [], stderr_chunks = [''API key missing''], exit_code = Some 1\<rparr>
          empty_uploads))
       ''uploads/1700000000000.png'' = None"
proof -
  have refused: "serve node 1700000000000
     \<lparr>claim_text = Some [], source_text = None,
      claimImage = Some \<lparr>originalname = ''claim.png'', bytes = ''first image''\<rparr>\<rparr>
     \<lparr>stdout_chunks = [], stderr_chunks = [], exit_code = None\<rparr>
     empty_uploads =
   (\<lparr>files = [''uploads/1700000000000.png'' \<mapsto> ''first image''],
     events =
       [Wrote ''uploads/1700000000000.png'',
        Sent \<lparr>status = 400, body = Error_only ''Claim text is required.''\<rparr>]\<rparr>,
    Responded \<lparr>status = 400, body = Error_only ''Claim text is required.''\<rparr>)"
    by (simp add: serve_def upload_single_def api_verify_def write_file_def res_json_def
        claim_required_def staged_png png_path_storable empty_uploads_def)
  have thrown: "serve node 1700000000000
       \<lparr>claim_text = Some [CHR ''a'', CHR 0x00, CHR ''b''], source_text = None,
        claimImage = Some \<lparr>originalname = ''claim.png'', bytes = ''first image''\<rparr>\<rparr>
       \<lparr>stdout_chunks = [], stderr_chunks = [], exit_code = None\<rparr>
       empty_uploads =
     (\<lparr>files = [''uploads/1700000000000.png'' \<mapsto> ''first image''],
       events =
         [Wrote ''uploads/1700000000000.png'',
          Logged (Received_request (Some [CHR ''a'', CHR 0x00, CHR ''b'']) None
            ''uploads/1700000000000.png''),
          Logged Starting_agent]\<rparr>,
      Uncaught (ERR_INVALID_ARG_VALUE [CHR ''a'', CHR 0x00, CHR ''b'']))"
    by (simp add: serve_def upload_single_def api_verify_def write_file_def spawn_def
        console_log_def has_nul_def imagePath_def or_else_def staged_png named_png
        png_path_storable empty_uploads_def node_def uploadDir_def)
  have "snd (api_verify node req_a a_stored) = Awaiting_close"
    by (simp add: api_verify_def req_a_eq spawn_def console_log_def has_nul_def node_def
        or_else_def imagePath_def)
  then obtain w2 where "api_verify node req_a a_stored = (w2, Awaiting_close)"
    by (cases "api_verify node req_a a_stored") auto
  then have "serve node 1700000000000 form_a
      \<lparr>stdout_chunks = [], stderr_chunks = [''API key missing''], exit_code = Some 1\<rparr>
      empty_uploads =
      on_close node req_a (Some 1) [] ''API key missing'' w2"
    by (simp add: serve_def two_uploads_stored accumulate_def)
  then have removed: "files
       (fst (serve node 1700000000000 form_a
          \<lparr>stdout_chunks = [], stderr_chunks = [''API key missing''], exit_code = Some 1\<rparr>
          empty_uploads))
       ''uploads/1700000000000.png'' = None"
    by (simp add: on_close_files req_a_eq)
  from refused thrown removed show ?thesis
    by simp
qed

text \<open>
  C3, as amended. When the removal of the stored file goes through, or no file was
  stored, the close listener takes the invocation for a success exactly when the exit
  code is zero and the standard output buffer is not empty: it answers with the
  agent-failure error exactly when one of the two fails, and for a success whose output
  parses it answers with status 200 and the parsed value. In every world, a response
  that is sent is the one this classification gives. When the removal fails, no response
  is sent, whatever the invocation returned.
\<close>

theorem success_iff_zero_exit_and_output:
  "(removable req w \<longrightarrow>
      (snd (on_close rt req code out err w) =
         Responded \<lparr>status = 500, body = Error_details ''Agent script failed.'' err\<rparr>)
      = (\<not> (code = Some 0 \<and> out \<noteq> [])))
   \<and> (removable req w \<and> code = Some 0 \<and> out \<noteq> [] \<and> JSON_parse rt out = Some v \<longrightarrow>
      snd (on_close rt req code out err w) = Responded \<lparr>status = 200, body = Parsed v\<rparr>)
   \<and> (\<forall>r. snd (on_close rt req code out err w) = Responded r \<longrightarrow>
      ((r = \<lparr>status = 500, body = Error_details ''Agent script failed.'' err\<rparr>)
       = (\<not> (code = Some 0 \<and> out \<noteq> []))) \<and>
      (code = Some 0 \<and> out \<noteq> [] \<and> JSON_parse rt out = Some v \<longrightarrow>
         r = \<lparr>status = 200, body = Parsed v\<rparr>))
   \<and> (\<not> removable req w \<longrightarrow>
      snd (on_close rt req code out err w) = Uncaught (ENOENT (imagePath req)))"
proof (intro conjI impI allI)
  assume "removable req w"
  then show "(snd (on_close rt req code out err w) =
         Responded \<lparr>status = 500, body = Error_details ''Agent script failed.'' err\<rparr>)
      = (\<not> (code = Some 0 \<and> out \<noteq> []))"
    using on_close_sends [of req w rt code out err] by (auto split: option.splits)
next
  assume "removable req w \<and> code = Some 0 \<and> out \<noteq> [] \<and> JSON_parse rt out = Some v"
  then show "snd (on_close rt req code out err w) = Responded \<lparr>status = 200, body = Parsed v\<rparr>"
    using on_close_sends [of req w rt code out err] by auto
next
  fix r
  assume sent: "snd (on_close rt req code out err w) = Responded r"
  from on_close_response(2) [OF sent]
  show "(r = \<lparr>status = 500, body = Error_details ''Agent script failed.'' err\<rparr>)
      = (\<not> (code = Some 0 \<and> out \<noteq> []))"
    by (auto split: option.splits)
next
  fix r
  assume sent: "snd (on_close rt req code out err w) = Responded r"
    and "code = Some 0 \<and> out \<noteq> [] \<and> JSON_parse rt out = Some v"
  with on_close_response(2) [OF sent] show "r = \<lparr>status = 200, body = Parsed v\<rparr>"
    by simp
next
  assume "\<not> removable req w"
  from on_close_throws [OF this, of rt code out err]
  show "snd (on_close rt req code out err w) = Uncaught (ENOENT (imagePath req))"
    by simp
qed

theorem success_iff_zero_exit_and_output_witness:
  "snd (on_close node req_b (Some 2) ''{\"final_verdict\":\"False\"}'' ''warning'' both_waiting) =
      Responded \<lparr>status = 500, body = Error_details ''Agent script failed.'' ''warning''\<rparr>
   \<and> snd (on_close node req_b (Some 0) ''{\"final_verdict\":\"False\"}'' ''warning'' both_waiting) \<noteq>
      Responded \<lparr>status = 500, body = Error_details ''Agent script failed.'' ''warning''\<rparr>
   \<and> snd (on_close node req_b (Some 0) ''{\"final_verdict\":\"False\"}'' ''warning'' both_waiting) =
      Responded
        \<lparr>status = 200, body = Parsed (JObject [(''final_verdict'', JString ''False'')])\<rparr>
   \<and> snd (on_close node req_b (Some 0) ''{\"final_verdict\":\"False\"}'' ''warning'' a_closed) =
      Uncaught (ENOENT ''uploads/1700000000000.png'')"
proof -
  have parsed: "JSON_parse node ''{\"final_verdict\":\"False\"}'' =
      Some (JObject [(''final_verdict'', JString ''False'')])"
    by (simp add: node_def parsed_verdict)
  have gone: "\<not> removable req_b a_closed"
    by (simp add: removable_def req_b_eq a_closed_eq)
  have at: "imagePath req_b = ''uploads/1700000000000.png''"
    by (simp add: imagePath_def req_b_eq)
  note t = success_iff_zero_exit_and_output
    [where rt = node and req = req_b and out = "''{\"final_verdict\":\"False\"}''"
       and err = "''warning''" and v = "JObject [(''final_verdict'', JString ''False'')]"]
  from t [where code = "Some 2" and w = both_waiting, THEN conjunct1, THEN mp,
      OF removable_b_waiting]
  have two: "snd (on_close node req_b (Some 2) ''{\"final_verdict\":\"False\"}'' ''warning''
        both_waiting) =
      Responded \<lparr>status = 500, body = Error_details ''Agent script failed.'' ''warning''\<rparr>"
    by simp
  from t [where code = "Some 0" and w = both_waiting, THEN conjunct1, THEN mp,
      OF removable_b_waiting]
  have zero: "snd (on_close node req_b (Some 0) ''{\"final_verdict\":\"False\"}'' ''warning''
        both_waiting) \<noteq>
      Responded \<lparr>status = 500, body = Error_details ''Agent script failed.'' ''warning''\<rparr>"
    by simp
  from t [where code = "Some 0" and w = both_waiting, THEN conjunct2, THEN conjunct1, THEN mp]
    removable_b_waiting parsed
  have verdict: "snd (on_close node req_b (Some 0) ''{\"final_verdict\":\"False\"}'' ''warning''
        both_waiting) =
      Responded
        \<lparr>status = 200, body = Parsed (JObject [(''final_verdict'', JString ''False'')])\<rparr>"
    by simp
  from t [where code = "Some 0" and w = a_closed, THEN conjunct2, THEN conjunct2,
      THEN conjunct2, THEN mp, OF gone] at
  have unanswered: "snd (on_close node req_b (Some 0) ''{\"final_verdict\":\"False\"}'' ''warning''
        a_closed) = Uncaught (ENOENT ''uploads/1700000000000.png'')"
    by simp
  show ?thesis
    by (rule conjI [OF two conjI [OF zero conjI [OF verdict unanswered]]])
qed

text \<open>
  C3 as stated fails when the stored file is gone at the time of the close: the second
  of the two uploads of one millisecond exits with code zero and an output that parses,
  and gets no response.
\<close>

theorem success_without_response:
  "snd (on_close node req_b (Some 0) ''null'' [] a_closed) =
     Uncaught (ENOENT ''uploads/1700000000000.png'')"
  by (simp add: on_close_def cleanup_def unlinkSync_def imagePath_def console_log_def
      req_b_eq a_closed_eq)

text \<open>
  C4, as amended. An invocation that exits with code zero and a standard output that is
  not empty and does not parse is answered with status 500 and the body
  \<^verbatim>\<open>{error: 'Failed to parse agent result.', details: <stdout>}\<close> when the removal of
  the stored file goes through, or no file was stored. In every world this is the only
  response such an invocation can get: never status 200. When the removal fails, no
  response is sent.
\<close>

theorem unparsable_output_reported:
  "(removable req w \<and> out \<noteq> [] \<and> JSON_parse rt out = None \<longrightarrow>
      snd (on_close rt req (Some 0) out err w) =
        Responded
          \<lparr>status = 500, body = Error_details ''Failed to parse agent result.'' out\<rparr>)
   \<and> (out \<noteq> [] \<and> JSON_parse rt out = None \<longrightarrow>
      (\<forall>r. snd (on_close rt req (Some 0) out err w) = Responded r \<longrightarrow>
         r = \<lparr>status = 500, body = Error_details ''Failed to parse agent result.'' out\<rparr>))
   \<and> (\<not> removable req w \<longrightarrow>
      snd (on_close rt req (Some 0) out err w) = Uncaught (ENOENT (imagePath req)))"
proof (intro conjI impI allI)
  assume "removable req w \<and> out \<noteq> [] \<and> JSON_parse rt out = None"
  then show "snd (on_close rt req (Some 0) out err w) =
        Responded
          \<lparr>status = 500, body = Error_details ''Failed to parse agent result.'' out\<rparr>"
    using on_close_sends [of req w rt "Some 0" out err] by auto
next
  fix r
  assume "out \<noteq> [] \<and> JSON_parse rt out = None"
    and sent: "snd (on_close rt req (Some 0) out err w) = Responded r"
  with on_close_response(2) [OF sent]
  show "r = \<lparr>status = 500, body = Error_details ''Failed to parse agent result.'' out\<rparr>"
    by simp
next
  assume "\<not> removable req w"
  from on_close_throws [OF this, of rt "Some 0" out err]
  show "snd (on_close rt req (Some 0) out err w) = Uncaught (ENOENT (imagePath req))"
    by simp
qed

theorem unparsable_output_reported_witness:
  "snd (on_close node req_b (Some 0) ''not json'' ''warning'' both_waiting) =
     Responded
       \<lparr>status = 500, body = Error_details ''Failed to parse agent result.'' ''not json''\<rparr>
   \<and> snd (on_close node req_b (Some 0) ''not json'' ''warning'' both_waiting) \<noteq>
     Responded \<lparr>status = 200, body = Parsed JNull\<rparr>
   \<and> snd (on_close node req_a (Some 0) ''not json'' ''warning'' a_closed) =
     Uncaught (ENOENT ''uploads/1700000000000.png'')"
proof -
  have unparsed: "''not json'' \<noteq> [] \<and> JSON_parse node ''not json'' = None"
    by (simp add: node_def not_json)
  with removable_b_waiting
  have here: "removable req_b both_waiting \<and> ''not json'' \<noteq> [] \<and>
      JSON_parse node ''not json'' = None"
    by simp
  have gone: "\<not> removable req_a a_closed"
    by (simp add: removable_def req_a_eq a_closed_eq)
  have at: "imagePath req_a = ''uploads/1700000000000.png''"
    by (simp add: imagePath_def req_a_eq)
  note t = unparsable_output_reported
    [where rt = node and out = "''not json''" and err = "''warning''"]
  note sent = t [where req = req_b and w = both_waiting, THEN conjunct1, THEN mp, OF here]
  note only = t [where req = req_b and w = both_waiting, THEN conjunct2, THEN conjunct1,
      THEN mp, OF unparsed, THEN spec, THEN mp]
  have other: "snd (on_close node req_b (Some 0) ''not json'' ''warning'' both_waiting) \<noteq>
      Responded \<lparr>status = 200, body = Parsed JNull\<rparr>"
  proof
    assume "snd (on_close node req_b (Some 0) ''not json'' ''warning'' both_waiting) =
      Responded \<lparr>status = 200, body = Parsed JNull\<rparr>"
    from only [OF this] show False
      by simp
  qed
  from t [where req = req_a and w = a_closed, THEN conjunct2, THEN conjunct2, THEN mp,
      OF gone] at
  have unanswered: "snd (on_close node req_a (Some 0) ''not json'' ''warning'' a_closed) =
      Uncaught (ENOENT ''uploads/1700000000000.png'')"
    by simp
  show ?thesis
    by (rule conjI [OF sent conjI [OF other unanswered]])
qed

text \<open>
  C4 as stated fails when the stored file is gone at the time of the close: the second
  of the two uploads of one millisecond exits with code zero and the output
  \<^verbatim>\<open>not json\<close>, and gets no response.
\<close>

theorem unparsable_without_response:
  "snd (on_close node req_b (Some 0) ''not json'' [] a_closed) =
     Uncaught (ENOENT ''uploads/1700000000000.png'')"
  by (simp add: on_close_def cleanup_def unlinkSync_def imagePath_def console_log_def
      req_b_eq a_closed_eq)

text \<open>
  C5, as amended. An invocation that exits with a code other than zero, or that leaves
  the standard output buffer empty, is answered with status 500 and the body
  \<^verbatim>\<open>{error: 'Agent script failed.', details: <stderr>}\<close>, whatever the standard error
  buffer holds, when the removal of the stored file goes through, or no file was stored.
  In every world this is the only response such an invocation can get. When the removal
  fails, no response is sent. The standard output is not used and nothing is parsed:
  with a code other than zero, another parser and another standard output give the same
  result.
\<close>

theorem agent_failure_reports_stderr:
  "((code \<noteq> Some 0 \<or> out = []) \<and> removable req w \<longrightarrow>
      snd (on_close rt req code out err w) =
        Responded \<lparr>status = 500, body = Error_details ''Agent script failed.'' err\<rparr>)
   \<and> (code \<noteq> Some 0 \<or> out = [] \<longrightarrow>
      (\<forall>r. snd (on_close rt req code out err w) = Responded r \<longrightarrow>
         r = \<lparr>status = 500, body = Error_details ''Agent script failed.'' err\<rparr>))
   \<and> (\<not> removable req w \<longrightarrow>
      snd (on_close rt req code out err w) = Uncaught (ENOENT (imagePath req)))
   \<and> (code \<noteq> Some 0 \<longrightarrow>
      on_close rt' req code out' err w = on_close rt req code out err w)"
proof (intro conjI impI allI)
  assume "(code \<noteq> Some 0 \<or> out = []) \<and> removable req w"
  then show "snd (on_close rt req code out err w) =
        Responded \<lparr>status = 500, body = Error_details ''Agent script failed.'' err\<rparr>"
    using on_close_sends [of req w rt code out err] by auto
next
  fix r
  assume "code \<noteq> Some 0 \<or> out = []"
    and sent: "snd (on_close rt req code out err w) = Responded r"
  with on_close_response(2) [OF sent]
  show "r = \<lparr>status = 500, body = Error_details ''Agent script failed.'' err\<rparr>"
    by auto
next
  assume "\<not> removable req w"
  from on_close_throws [OF this, of rt code out err]
  show "snd (on_close rt req code out err w) = Uncaught (ENOENT (imagePath req))"
    by simp
next
  assume "code \<noteq> Some 0"
  then show "on_close rt' req code out' err w = on_close rt req code out err w"
    by (simp add: on_close_def split: sum.splits)
qed

theorem agent_failure_reports_stderr_witness:
  "snd (on_close node req_b (Some 1) ''partial'' ''API key missing'' both_waiting) =
     Responded \<lparr>status = 500, body = Error_details ''Agent script failed.'' ''API key missing''\<rparr>
   \<and> snd (on_close node req_b (Some 0) [] ''no output'' both_waiting) =
     Responded \<lparr>status = 500, body = Error_details ''Agent script failed.'' ''no output''\<rparr>
   \<and> snd (on_close node req_a None [] ''killed'' a_closed) =
     Uncaught (ENOENT ''uploads/1700000000000.png'')
   \<and> on_close \<lparr>JSON_parse = Map.empty, process_env = [], main_py = []\<rparr>
        req_b None ''null'' ''killed'' both_waiting =
      on_close node req_b None [] ''killed'' both_waiting"
proof -
  have failed: "(Some 1 \<noteq> Some (0::int) \<or> ''partial'' = []) \<and> removable req_b both_waiting"
    by (simp add: removable_b_waiting)
  have silent: "(Some 0 \<noteq> Some (0::int) \<or> ([]::string) = []) \<and> removable req_b both_waiting"
    by (simp add: removable_b_waiting)
  have killed: "(None :: int option) \<noteq> Some 0"
    by simp
  have gone: "\<not> removable req_a a_closed"
    by (simp add: removable_def req_a_eq a_closed_eq)
  have at: "imagePath req_a = ''uploads/1700000000000.png''"
    by (simp add: imagePath_def req_a_eq)
  note first = agent_failure_reports_stderr
    [where rt = node and req = req_b and w = both_waiting and code = "Some 1"
       and out = "''partial''" and err = "''API key missing''", THEN conjunct1, THEN mp,
     OF failed]
  note second = agent_failure_reports_stderr
    [where rt = node and req = req_b and w = both_waiting and code = "Some 0"
       and out = "[]" and err = "''no output''", THEN conjunct1, THEN mp, OF silent]
  from agent_failure_reports_stderr
    [where rt = node and req = req_a and w = a_closed and code = None and out = "[]"
       and err = "''killed''", THEN conjunct2, THEN conjunct2, THEN conjunct1, THEN mp,
     OF gone] at
  have third: "snd (on_close node req_a None [] ''killed'' a_closed) =
      Uncaught (ENOENT ''uploads/1700000000000.png'')"
    by simp
  note fourth = agent_failure_reports_stderr
    [where rt = node and req = req_b and w = both_waiting and code = None and out = "[]"
       and err = "''killed''"
       and rt' = "\<lparr>JSON_parse = Map.empty, process_env = [], main_py = []\<rparr>"
       and out' = "''null''", THEN conjunct2, THEN conjunct2, THEN conjunct2, THEN mp,
     OF killed]
  show ?thesis
    by (rule conjI [OF first conjI [OF second conjI [OF third fourth]]])
qed

text \<open>
  C5 as stated fails when the stored file is gone at the time of the close: the second
  of the two uploads of one millisecond exits with code 2 and a message on the standard
  error, and gets no response.
\<close>

theorem failure_without_response:
  "snd (on_close node req_b (Some 2) ''partial'' ''Traceback'' a_closed) =
     Uncaught (ENOENT ''uploads/1700000000000.png'')"
  by (simp add: on_close_def cleanup_def unlinkSync_def imagePath_def console_log_def
      req_b_eq a_closed_eq)




text \<open>
  C7, as amended. The close listener sends the response that the exit code and the
  output call for exactly when the removal of the stored file goes through, or no file
  was stored. When the removal fails, the exception of \<^verbatim>\<open>unlinkSync\<close> leaves the
  listener: the only effect is the line logged on entry, the failure itself is not
  logged, and no response is written.
\<close>

theorem response_only_after_removal:
  "(removable req w \<longrightarrow>
      snd (on_close rt req code out err w) =
        Responded
          (if code = Some 0 \<and> out \<noteq> [] then
             (case JSON_parse rt out of
                Some v \<Rightarrow> \<lparr>status = 200, body = Parsed v\<rparr>
              | None \<Rightarrow>
                  \<lparr>status = 500, body = Error_details ''Failed to parse agent result.'' out\<rparr>)
           else \<lparr>status = 500, body = Error_details ''Agent script failed.'' err\<rparr>))
   \<and> (req_file req = Some f \<and> files w (path f) = None \<longrightarrow>
      on_close rt req code out err w =
        (w\<lparr>events := events w @ [Logged (Script_exited code)]\<rparr>, Uncaught (ENOENT (path f))))
   \<and> ((\<exists>r. snd (on_close rt req code out err w) = Responded r) = removable req w)"
proof (intro conjI impI)
  assume "removable req w"
  then show "snd (on_close rt req code out err w) =
      Responded
        (if code = Some 0 \<and> out \<noteq> [] then
           (case JSON_parse rt out of
              Some v \<Rightarrow> \<lparr>status = 200, body = Parsed v\<rparr>
            | None \<Rightarrow>
                \<lparr>status = 500, body = Error_details ''Failed to parse agent result.'' out\<rparr>)
         else \<lparr>status = 500, body = Error_details ''Agent script failed.'' err\<rparr>)"
    by (rule on_close_sends)
next
  assume gone: "req_file req = Some f \<and> files w (path f) = None"
  then have "\<not> removable req w"
    by (simp add: removable_def)
  from on_close_throws [OF this, of rt code out err] gone
  show "on_close rt req code out err w =
      (w\<lparr>events := events w @ [Logged (Script_exited code)]\<rparr>, Uncaught (ENOENT (path f)))"
    by (simp add: imagePath_def)
next
  show "(\<exists>r. snd (on_close rt req code out err w) = Responded r) = removable req w"
  proof (cases "removable req w")
    case True
    with on_close_sends [OF True, of rt code out err] show ?thesis
      by simp
  next
    case False
    with on_close_throws [OF False, of rt code out err] show ?thesis
      by simp
  qed
qed

theorem response_only_after_removal_witness:
  "snd (on_close node req_b (Some 0) ''not json'' ''warning'' both_waiting) =
     Responded
       \<lparr>status = 500, body = Error_details ''Failed to parse agent result.'' ''not json''\<rparr>
   \<and> on_close node req_b (Some 1) [] ''API key missing'' a_closed =
     (a_closed\<lparr>events := events a_closed @ [Logged (Script_exited (Some 1))]\<rparr>,
      Uncaught (ENOENT ''uploads/1700000000000.png''))"
proof -
  have gone: "req_file req_b =
      Some \<lparr>destination = ''uploads'', filename = ''1700000000000.png'',
            path = ''uploads/1700000000000.png''\<rparr> \<and>
      files a_closed
        (path \<lparr>destination = ''uploads'', filename = ''1700000000000.png'',
               path = ''uploads/1700000000000.png''\<rparr>) = None"
    by (simp add: req_b_eq a_closed_eq)
  note sent = response_only_after_removal
    [where req = req_b and w = both_waiting and rt = node and code = "Some 0"
       and out = "''not json''" and err = "''warning''", THEN conjunct1, THEN mp,
     OF removable_b_waiting]
  note thrown = response_only_after_removal
    [where req = req_b and w = a_closed and rt = node and code = "Some 1" and out = "[]"
       and err = "''API key missing''", THEN conjunct2, THEN conjunct1, THEN mp, OF gone]
  from sent thrown show ?thesis
    by (simp add: node_def not_json)
qed

text \<open>
  C7 as stated fails when the stored file is gone at the time of the close. The second
  of the two uploads of one millisecond finds its file removed by the first: its agent
  exits with code zero and a verdict, and the listener ends in the exception, having
  logged the exit code only and sent nothing.
\<close>

theorem failed_removal_sends_nothing:
  "on_close node req_b (Some 0) ''{\"final_verdict\":\"False\"}'' [] a_closed =
     (a_closed\<lparr>events := events a_closed @ [Logged (Script_exited (Some 0))]\<rparr>,
      Uncaught (ENOENT ''uploads/1700000000000.png''))"
  by (simp add: on_close_def cleanup_def unlinkSync_def imagePath_def console_log_def
      req_b_eq a_closed_eq)

text \<open>
  C8, as amended. The name of a stored file is the millisecond count at the time the
  name is chosen, in decimal, followed by the extension of the original name. Two such
  names are equal exactly when the two counts are equal and the two extensions are
  equal. When they differ, the cleanup of the one request leaves the file of the other
  in place.
\<close>

theorem stored_names_differ_iff:
  "storage_filename now f = string_of_nat now @ extname (originalname f)
   \<and> ((storage_filename t1 f1 = storage_filename t2 f2) =
        (t1 = t2 \<and> extname (originalname f1) = extname (originalname f2)))
   \<and> ((t1 \<noteq> t2 \<or> extname (originalname f1) \<noteq> extname (originalname f2)) \<and>
      req_file req =
        Some \<lparr>destination = uploadDir, filename = storage_filename t1 f1,
              path = staged_path t1 f1\<rparr> \<longrightarrow>
      files (fst (on_close rt req code out err w)) (staged_path t2 f2) =
        files w (staged_path t2 f2))"
proof (intro conjI impI)
  show "storage_filename now f = string_of_nat now @ extname (originalname f)"
    by (simp add: storage_filename_def)
next
  show "(storage_filename t1 f1 = storage_filename t2 f2) =
      (t1 = t2 \<and> extname (originalname f1) = extname (originalname f2))"
    by (rule storage_filename_eq_iff)
next
  assume a: "(t1 \<noteq> t2 \<or> extname (originalname f1) \<noteq> extname (originalname f2)) \<and>
      req_file req =
        Some \<lparr>destination = uploadDir, filename = storage_filename t1 f1,
              path = staged_path t1 f1\<rparr>"
  then have "storage_filename t1 f1 \<noteq> storage_filename t2 f2"
    by (simp add: storage_filename_eq_iff)
  then have "staged_path t1 f1 \<noteq> staged_path t2 f2"
    by (simp add: staged_path_def)
  with a show "files (fst (on_close rt req code out err w)) (staged_path t2 f2) =
      files w (staged_path t2 f2)"
    by (simp add: on_close_files)
qed

theorem stored_names_differ_iff_witness:
  "storage_filename 1700000000000 \<lparr>originalname = ''claim.png'', bytes = ''first image''\<rparr> \<noteq>
     storage_filename 1700000000001 \<lparr>originalname = ''claim.png'', bytes = ''second image''\<rparr>
   \<and> files
       (fst (on_close node req_a (Some 0) ''null'' []
          \<lparr>files = [''uploads/1700000000000.png'' \<mapsto> ''first image'',
                    ''uploads/1700000000001.png'' \<mapsto> ''second image''],
           events = []\<rparr>))
       (staged_path 1700000000001 \<lparr>originalname = ''claim.png'', bytes = ''second image''\<rparr>) =
     Some ''second image''"
proof -
  let ?f1 = "\<lparr>originalname = ''claim.png'', bytes = ''first image''\<rparr>"
  let ?f2 = "\<lparr>originalname = ''claim.png'', bytes = ''second image''\<rparr>"
  have later: "string_of_nat 1700000000001 = ''1700000000001''"
    by (simp add: string_of_nat.simps digit_char_def)
  have stored: "((1700000000000::nat) \<noteq> 1700000000001 \<or>
        extname (originalname ?f1) \<noteq> extname (originalname ?f2)) \<and>
      req_file req_a =
        Some \<lparr>destination = uploadDir, filename = storage_filename 1700000000000 ?f1,
              path = staged_path 1700000000000 ?f1\<rparr>"
    by (simp add: req_a_eq staged_png named_png uploadDir_def)
  have there: "staged_path 1700000000001 ?f2 = ''uploads/1700000000001.png''"
    by (simp add: staged_path_def storage_filename_def uploadDir_def later png_ext)
  note t = stored_names_differ_iff
    [where ?t1.0 = 1700000000000 and ?t2.0 = 1700000000001 and ?f1.0 = ?f1 and ?f2.0 = ?f2
       and req = req_a and rt = node and code = "Some 0" and out = "''null''" and err = "[]"
       and w = "\<lparr>files = [''uploads/1700000000000.png'' \<mapsto> ''first image'',
                           ''uploads/1700000000001.png'' \<mapsto> ''second image''],
                  events = []\<rparr>"]
  from t [THEN conjunct2, THEN conjunct1]
  have names: "storage_filename 1700000000000 ?f1 \<noteq> storage_filename 1700000000001 ?f2"
    by simp
  from t [THEN conjunct2, THEN conjunct2, THEN mp, OF stored] there
  have kept: "files
       (fst (on_close node req_a (Some 0) ''null'' []
          \<lparr>files = [''uploads/1700000000000.png'' \<mapsto> ''first image'',
                    ''uploads/1700000000001.png'' \<mapsto> ''second image''],
           events = []\<rparr>))
       (staged_path 1700000000001 ?f2) = Some ''second image''"
    by simp
  from names kept show ?thesis
    by simp
qed

text \<open>
  C8 as stated fails for two uploads whose names are chosen in the same millisecond and
  whose extensions are equal: both are stored under one name, the second over the
  first. When the first request's agent ends, its cleanup removes the file the second
  request's agent was given.
\<close>

theorem same_millisecond_same_name:
  "storage_filename 1700000000000 \<lparr>originalname = ''claim.png'', bytes = ''first image''\<rparr> =
     storage_filename 1700000000000 \<lparr>originalname = ''claim.png'', bytes = ''second image''\<rparr>
   \<and> imagePath req_a = ''uploads/1700000000000.png''
   \<and> imagePath req_b = ''uploads/1700000000000.png''
   \<and> files both_waiting ''uploads/1700000000000.png'' = Some ''second image''
   \<and> files a_closed ''uploads/1700000000000.png'' = None"
  by (simp add: named_png imagePath_def req_a_eq req_b_eq both_waiting_eq a_closed_eq)



text \<open>
  C10, as amended. Every response the handler sends is a function of the claim, the exit
  code and the two buffers: when two requests with the same claim, the same source
  identifier and a file part in both or in neither, whose agents end with the same code
  and the same accumulated outputs, are both answered, the two responses are equal,
  whatever the time, the world, the uploaded file and the way the output was cut into
  chunks. Two close listeners whose cleanups go through give the same outcome. Whether
  a request is answered at all is not a function of these inputs: it also depends on
  whether its stored file is still there when its child closes.
\<close>

theorem response_determined_by_inputs:
  "(claim_text fm1 = claim_text fm2 \<and> source_text fm1 = source_text fm2 \<and>
      (claimImage fm1 = None) = (claimImage fm2 = None) \<and>
      exit_code run1 = exit_code run2 \<and>
      accumulate (stdout_chunks run1) = accumulate (stdout_chunks run2) \<and>
      accumulate (stderr_chunks run1) = accumulate (stderr_chunks run2) \<and>
      snd (serve rt now1 fm1 run1 w1) = Responded r1 \<and>
      snd (serve rt now2 fm2 run2 w2) = Responded r2 \<longrightarrow>
      r1 = r2)
   \<and> (snd (on_close rt req code out err w) = Responded r \<and>
      snd (on_close rt req' code out err w') = Responded r' \<longrightarrow>
      r = r')
   \<and> (removable req w \<and> removable req' w' \<longrightarrow>
      snd (on_close rt req code out err w) = snd (on_close rt req' code out err w'))"
proof (intro conjI impI)
  assume same: "claim_text fm1 = claim_text fm2 \<and> source_text fm1 = source_text fm2 \<and>
      (claimImage fm1 = None) = (claimImage fm2 = None) \<and>
      exit_code run1 = exit_code run2 \<and>
      accumulate (stdout_chunks run1) = accumulate (stdout_chunks run2) \<and>
      accumulate (stderr_chunks run1) = accumulate (stderr_chunks run2) \<and>
      snd (serve rt now1 fm1 run1 w1) = Responded r1 \<and>
      snd (serve rt now2 fm2 run2 w2) = Responded r2"
  then have first: "snd (serve rt now1 fm1 run1 w1) = Responded r1"
    and second: "snd (serve rt now2 fm2 run2 w2) = Responded r2"
    and claim: "claim_text fm1 = claim_text fm2"
    and code: "exit_code run1 = exit_code run2"
    and out: "accumulate (stdout_chunks run1) = accumulate (stdout_chunks run2)"
    and err: "accumulate (stderr_chunks run1) = accumulate (stderr_chunks run2)"
    by simp_all
  show "r1 = r2"
    unfolding serve_response [OF first] serve_response [OF second] claim code out err
    by (rule refl)
next
  assume "snd (on_close rt req code out err w) = Responded r \<and>
      snd (on_close rt req' code out err w') = Responded r'"
  then have first: "snd (on_close rt req code out err w) = Responded r"
    and second: "snd (on_close rt req' code out err w') = Responded r'"
    by simp_all
  show "r = r'"
    unfolding on_close_response(2) [OF first] on_close_response(2) [OF second]
    by (rule refl)
next
  assume "removable req w \<and> removable req' w'"
  then show "snd (on_close rt req code out err w) = snd (on_close rt req' code out err w')"
    by (simp add: on_close_sends)
qed

theorem response_determined_by_inputs_witness:
  "snd (serve node 1700000000000 form_a
         \<lparr>stdout_chunks = [''{\"final_'', ''verdict\":\"False\"}''], stderr_chunks = [],
          exit_code = Some 0\<rparr>
         empty_uploads) =
     snd (serve node 1700000000000
         \<lparr>claim_text = Some ''The sky is green'', source_text = None,
          claimImage = Some \<lparr>originalname = ''claim.png'', bytes = ''other image''\<rparr>\<rparr>
         \<lparr>stdout_chunks = [''{\"final_verdict\":\"False\"}''], stderr_chunks = [[], []],
          exit_code = Some 0\<rparr>
         a_stored)
   \<and> snd (on_close node req_b (Some 1) ''partial'' ''API key missing'' both_waiting) =
     snd (on_close node
         \<lparr>original_claim = Some ''Water is wet'', source_identifier = None, req_file = None\<rparr>
         (Some 1) ''partial'' ''API key missing'' empty_uploads)"
proof -
  let ?fm = "\<lparr>claim_text = Some ''The sky is green'', source_text = None,
      claimImage = Some \<lparr>originalname = ''claim.png'', bytes = ''other image''\<rparr>\<rparr>"
  let ?run1 = "\<lparr>stdout_chunks = [''{\"final_'', ''verdict\":\"False\"}''], stderr_chunks = [],
      exit_code = Some 0\<rparr>"
  let ?run2 = "\<lparr>stdout_chunks = [''{\"final_verdict\":\"False\"}''], stderr_chunks = [[], []],
      exit_code = Some 0\<rparr>"
  have other: "invoked node 1700000000000 ?fm a_stored"
    by (simp add: invoked_def upload_single_def staged_png named_png write_file_def
        png_path_storable uploadDir_def a_stored_def api_verify_def spawn_def console_log_def
        node_def or_else_def imagePath_def has_nul_def)
  from serve_sends [OF invoked_with_file, of ?run1]
  obtain r1 where first: "snd (serve node 1700000000000 form_a ?run1 empty_uploads) =
      Responded r1"
    by blast
  from serve_sends [OF other, of ?run2]
  obtain r2 where second: "snd (serve node 1700000000000 ?fm ?run2 a_stored) = Responded r2"
    by blast
  have "claim_text form_a = claim_text ?fm \<and> source_text form_a = source_text ?fm \<and>
      (claimImage form_a = None) = (claimImage ?fm = None) \<and>
      exit_code ?run1 = exit_code ?run2 \<and>
      accumulate (stdout_chunks ?run1) = accumulate (stdout_chunks ?run2) \<and>
      accumulate (stderr_chunks ?run1) = accumulate (stderr_chunks ?run2)"
    by (simp add: form_a_def accumulate_def)
  with first second
  have same: "claim_text form_a = claim_text ?fm \<and> source_text form_a = source_text ?fm \<and>
      (claimImage form_a = None) = (claimImage ?fm = None) \<and>
      exit_code ?run1 = exit_code ?run2 \<and>
      accumulate (stdout_chunks ?run1) = accumulate (stdout_chunks ?run2) \<and>
      accumulate (stderr_chunks ?run1) = accumulate (stderr_chunks ?run2) \<and>
      snd (serve node 1700000000000 form_a ?run1 empty_uploads) = Responded r1 \<and>
      snd (serve node 1700000000000 ?fm ?run2 a_stored) = Responded r2"
    by blast
  from response_determined_by_inputs [THEN conjunct1, THEN mp, OF same]
  have "r1 = r2" .
  with first second
  have alone: "snd (serve node 1700000000000 form_a ?run1 empty_uploads) =
      snd (serve node 1700000000000 ?fm ?run2 a_stored)"
    by simp
  have "removable
      \<lparr>original_claim = Some ''Water is wet'', source_identifier = None, req_file = None\<rparr>
      empty_uploads"
    by (simp add: removable_def)
  with removable_b_waiting have both: "removable req_b both_waiting \<and>
      removable
        \<lparr>original_claim = Some ''Water is wet'', source_identifier = None, req_file = None\<rparr>
        empty_uploads"
    by (rule conjI)
  note listeners = response_determined_by_inputs
    [where req = req_b and w = both_waiting
       and req' = "\<lparr>original_claim = Some ''Water is wet'', source_identifier = None,
           req_file = None\<rparr>"
       and w' = empty_uploads and rt = node and code = "Some 1" and out = "''partial''"
       and err = "''API key missing''",
     THEN conjunct2, THEN conjunct2, THEN mp, OF both]
  from alone listeners show ?thesis
    by (rule conjI)
qed

text \<open>
  C10 as stated fails for two requests that agree in every field and are stored in the
  same millisecond. Their agents exit with code zero and the same verdict. The first
  close is answered with status 200; the second finds the file removed by the first and
  gets no response.
\<close>

theorem same_request_answered_and_unanswered:
  "snd (on_close node req_a (Some 0) ''{\"final_verdict\":\"False\"}'' [] twins_waiting) =
     Responded
       \<lparr>status = 200, body = Parsed (JObject [(''final_verdict'', JString ''False'')])\<rparr>
   \<and> snd (on_close node req_a (Some 0) ''{\"final_verdict\":\"False\"}'' []
          (fst (on_close node req_a (Some 0) ''{\"final_verdict\":\"False\"}'' []
             twins_waiting))) =
     Uncaught (ENOENT ''uploads/1700000000000.png'')"
  by (simp add: on_close_def cleanup_def unlinkSync_def imagePath_def console_log_def
      res_json_def req_a_eq twins_waiting_eq node_def parsed_verdict)

end
